theory Spec2Isabelle
  imports Main
begin

section \<open>JavaScript strings and the platform functions the worker calls\<close>

text \<open>
  A JavaScript string is modelled by a \<^typ>\<open>string\<close>, one \<^typ>\<open>char\<close> for each code
  unit below 256. Header values are byte strings, the path name of a parsed URL is
  ASCII, and \<open>atob\<close> returns one code unit below 256 for each decoded byte, so all of
  them are such strings. The result of \<open>decodeURIComponent\<close> is kept in UTF-8 (the
  bytes the escapes spell out), which is also how the store holds a key.
\<close>

definition startsWith :: "string \<Rightarrow> string \<Rightarrow> bool" where
  "startsWith s p = (take (length p) s = p)"

definition endsWith :: "string \<Rightarrow> string \<Rightarrow> bool" where
  "endsWith s p = (length p \<le> length s \<and> drop (length s - length p) s = p)"

text \<open>\<open>s.indexOf(c)\<close> for a one-character pattern; \<open>None\<close> stands for \<open>-1\<close>.\<close>

fun indexOf :: "string \<Rightarrow> char \<Rightarrow> nat option" where
  "indexOf [] c = None"
| "indexOf (x # xs) c = (if x = c then Some 0 else map_option Suc (indexOf xs c))"

text \<open>\<open>Array.prototype.join\<close> on an array of strings.\<close>

fun join :: "string \<Rightarrow> string list \<Rightarrow> string" where
  "join sep [] = []"
| "join sep [x] = x"
| "join sep (x # y # ys) = x @ sep @ join sep (y # ys)"

text \<open>A number in a template literal or a header value: its decimal digits.\<close>

fun show_nat :: "nat \<Rightarrow> string" where
  "show_nat n =
     (if n < 10 then [''0123456789'' ! n]
      else show_nat (n div 10) @ [''0123456789'' ! (n mod 10)])"

declare show_nat.simps [simp del]

subsection \<open>atob\<close>

text \<open>
  \<open>atob\<close> is the forgiving base64 decoder of the HTML standard: ASCII whitespace is
  dropped, one or two trailing \<open>=\<close> are removed when the length is a multiple of four,
  a length of \<open>1\<close> modulo \<open>4\<close> or a character outside the alphabet fails (the
  exception that \<open>checkAuth\<close> catches), and the remaining sextets are packed into
  bytes. \<open>None\<close> is the thrown exception.
\<close>

definition is_ascii_whitespace :: "char \<Rightarrow> bool" where
  "is_ascii_whitespace c = (of_char c \<in> {9, 10, 12, 13, 32 :: nat})"

definition b64val :: "char \<Rightarrow> nat option" where
  "b64val c =
     (let n = (of_char c :: nat) in
      if 65 \<le> n \<and> n \<le> 90 then Some (n - 65)
      else if 97 \<le> n \<and> n \<le> 122 then Some (n - 71)
      else if 48 \<le> n \<and> n \<le> 57 then Some (n + 4)
      else if n = 43 then Some 62
      else if n = 47 then Some 63
      else None)"

definition strip_padding :: "string \<Rightarrow> string" where
  "strip_padding d =
     (if length d mod 4 = 0 then
        (if endsWith d ''=='' then take (length d - 2) d
         else if endsWith d ''='' then take (length d - 1) d
         else d)
      else d)"

fun b64bytes :: "nat list \<Rightarrow> nat list" where
  "b64bytes (a # b # c # d # r) =
     (let v = ((a * 64 + b) * 64 + c) * 64 + d
      in v div 65536 # v div 256 mod 256 # v mod 256 # b64bytes r)"
| "b64bytes [a, b, c] = (let v = (a * 64 + b) * 64 + c in [v div 1024, v div 4 mod 256])"
| "b64bytes [a, b] = [(a * 64 + b) div 16]"
| "b64bytes _ = []"

definition atob :: "string \<Rightarrow> string option" where
  "atob data =
     (let d = strip_padding (filter (\<lambda>c. \<not> is_ascii_whitespace c) data)
      in if length d mod 4 = 1 then None
         else map_option (\<lambda>vs. map char_of (b64bytes vs)) (those (map b64val d)))"

subsection \<open>decodeURIComponent\<close>

text \<open>
  \<open>decodeURIComponent\<close> follows the \<open>Decode\<close> operation of ECMAScript with an empty
  reserved set. A \<open>%\<close> must be followed by two hexadecimal digits. An octet below
  \<open>0x80\<close> is the character itself; an octet that starts a sequence of \<open>n\<close> bytes
  (\<open>n\<close> from 2 to 4) must be followed by \<open>n - 1\<close> further escapes, and the octets
  must be well-formed UTF-8. Everything else throws \<open>URIError\<close>, here \<open>None\<close>.
\<close>

definition hexval :: "char \<Rightarrow> nat option" where
  "hexval c =
     (let n = (of_char c :: nat) in
      if 48 \<le> n \<and> n \<le> 57 then Some (n - 48)
      else if 65 \<le> n \<and> n \<le> 70 then Some (n - 55)
      else if 97 \<le> n \<and> n \<le> 102 then Some (n - 87)
      else None)"

definition ParseHexOctet :: "char \<Rightarrow> char \<Rightarrow> nat option" where
  "ParseHexOctet a b =
     (case hexval a of None \<Rightarrow> None
      | Some h \<Rightarrow> (case hexval b of None \<Rightarrow> None | Some l \<Rightarrow> Some (16 * h + l)))"

text \<open>The number of leading one bits of an octet.\<close>

definition leading_ones :: "nat \<Rightarrow> nat" where
  "leading_ones b =
     (if b < 128 then 0 else if b < 192 then 1 else if b < 224 then 2
      else if b < 240 then 3 else if b < 248 then 4 else 5)"

text \<open>Reads \<open>n\<close> further escapes \<open>%XX\<close>; gives their octets and the rest of the input.\<close>

fun continuation :: "nat \<Rightarrow> string \<Rightarrow> (nat list \<times> string) option" where
  "continuation 0 s = Some ([], s)"
| "continuation (Suc n) (p # a # b # s) =
     (if p \<noteq> CHR ''%'' then None
      else case ParseHexOctet a b of None \<Rightarrow> None
      | Some v \<Rightarrow> (case continuation n s of None \<Rightarrow> None
                  | Some (vs, r) \<Rightarrow> Some (v # vs, r)))"
| "continuation (Suc n) _ = None"

text \<open>Well-formed UTF-8 byte sequences of two to four bytes (Unicode, table 3-7).\<close>

definition tail_byte :: "nat \<Rightarrow> bool" where
  "tail_byte b = (128 \<le> b \<and> b \<le> 191)"

fun valid_utf8 :: "nat list \<Rightarrow> bool" where
  "valid_utf8 [a, b] = (194 \<le> a \<and> a \<le> 223 \<and> tail_byte b)"
| "valid_utf8 [a, b, c] =
     (tail_byte c \<and>
      (if a = 224 then 160 \<le> b \<and> b \<le> 191
       else if a = 237 then 128 \<le> b \<and> b \<le> 159
       else 225 \<le> a \<and> a \<le> 239 \<and> tail_byte b))"
| "valid_utf8 [a, b, c, d] =
     (tail_byte c \<and> tail_byte d \<and>
      (if a = 240 then 144 \<le> b \<and> b \<le> 191
       else if a = 244 then 128 \<le> b \<and> b \<le> 143
       else 241 \<le> a \<and> a \<le> 243 \<and> tail_byte b))"
| "valid_utf8 _ = False"

lemma continuation_length:
  "continuation n s = Some (vs, r) \<Longrightarrow> length r \<le> length s"
proof (induction n s arbitrary: vs r rule: continuation.induct)
  case (1 s)
  then show ?case by simp
next
  case (2 n p a b s)
  then show ?case
    by (fastforce split: if_splits option.splits)
qed simp_all

function decodeURIComponent :: "string \<Rightarrow> string option" where
  "decodeURIComponent [] = Some []"
| "decodeURIComponent (c # s) =
     (if c \<noteq> CHR ''%'' then map_option ((#) c) (decodeURIComponent s)
      else case s of
        a # b # r \<Rightarrow>
          (case ParseHexOctet a b of
             None \<Rightarrow> None
           | Some B \<Rightarrow>
               (if leading_ones B = 0 then map_option ((#) (char_of B)) (decodeURIComponent r)
                else if leading_ones B = 1 \<or> 4 < leading_ones B then None
                else case continuation (leading_ones B - 1) r of
                   None \<Rightarrow> None
                 | Some (vs, r') \<Rightarrow>
                     (if valid_utf8 (B # vs)
                      then map_option ((@) (map char_of (B # vs))) (decodeURIComponent r')
                      else None)))
      | _ \<Rightarrow> None)"
  by pat_completeness auto

termination
  by (relation "measure length") (auto dest: continuation_length)

section \<open>Requests, responses and the environment\<close>

text \<open>
  The headers of a request are the map that \<open>request.headers.get\<close> reads, keyed by
  the name as the worker writes it. The body of a request is its bytes (none for a
  request without a body). The \<open>headers\<close> of a response are the ones the worker
  passes to the \<open>Response\<close> constructor, and \<open>resp_body = None\<close> is the \<open>null\<close> body.
\<close>

record request =
  req_method :: string
  url :: string
  req_headers :: "string \<rightharpoonup> string"
  req_body :: string

record response =
  status :: nat
  headers :: "(string \<times> string) list"
  resp_body :: "string option"

text \<open>An exception that leaves \<open>fetch\<close> uncaught, or the response it returns.\<close>

datatype error = URIError | TypeError

datatype outcome = Throws error | Returns response

text \<open>
  What the runtime supplies and the source does not define: the URL parser
  (\<open>new URL(s).pathname\<close>, \<open>None\<close> where the constructor throws, and
  \<open>new URL(rel, base).pathname\<close> for a path-absolute reference), the clock behind
  \<open>new Date()\<close>, \<open>Date.prototype.toUTCString\<close>, and the fingerprint the store
  computes for the etag of an object.
\<close>

record platform =
  URL_pathname :: "string \<Rightarrow> string option"
  URL_pathname_rel :: "string \<Rightarrow> string \<Rightarrow> string"
  Date_now :: nat
  toUTCString :: "nat \<Rightarrow> string"
  fingerprint :: "string \<Rightarrow> string"

subsection \<open>The blob store\<close>

text \<open>
  Modelled from the spec: the bucket bound to \<open>env.BUCKET\<close> is an external service,
  described by the spec as a key to byte-sequence store with atomic per-key put, get
  and delete and a listing by prefix, which assigns each object an etag, a size and
  an upload time. The objects are kept in a list with one object for each key; the
  listing returns the matching objects in the order of that list, which stands for
  whatever order the store has. \<open>calls\<close> records the calls received, oldest first.
\<close>

type_synonym httpMetadata = "(string \<times> string) list"

record r2object =
  key :: string
  body :: string
  obj_size :: nat
  etag :: string
  uploaded :: nat
  httpMetadata :: httpMetadata

datatype store_call = Get string | Put string | Delete string | List string

record bucket =
  objects :: "r2object list"
  calls :: "store_call list"

definition bucket_get :: "bucket \<Rightarrow> string \<Rightarrow> r2object option \<times> bucket" where
  "bucket_get B k = (find (\<lambda>x. key x = k) (objects B), B\<lparr>calls := calls B @ [Get k]\<rparr>)"

definition bucket_put ::
  "platform \<Rightarrow> bucket \<Rightarrow> string \<Rightarrow> string \<Rightarrow> httpMetadata \<Rightarrow> r2object \<times> bucket" where
  "bucket_put P B k v m =
     (let x = \<lparr>key = k, body = v, obj_size = length v, etag = fingerprint P v,
                uploaded = Date_now P, httpMetadata = m\<rparr>
      in (x, B\<lparr>objects := filter (\<lambda>y. key y \<noteq> k) (objects B) @ [x],
               calls := calls B @ [Put k]\<rparr>))"

definition bucket_delete :: "bucket \<Rightarrow> string \<Rightarrow> bucket" where
  "bucket_delete B k =
     B\<lparr>objects := filter (\<lambda>y. key y \<noteq> k) (objects B), calls := calls B @ [Delete k]\<rparr>"

definition bucket_list :: "bucket \<Rightarrow> string \<Rightarrow> r2object list \<times> bucket" where
  "bucket_list B prefix =
     (filter (\<lambda>x. startsWith (key x) prefix) (objects B), B\<lparr>calls := calls B @ [List prefix]\<rparr>)"

text \<open>
  A configured secret is \<open>None\<close> when the variable is not set (\<open>undefined\<close>, which no
  string equals).
\<close>

record env =
  WEBDAV_USER :: "string option"
  WEBDAV_PASS :: "string option"
  BUCKET :: bucket

section \<open>The worker\<close>

subsection \<open>Authentication\<close>

definition checkAuth :: "string \<Rightarrow> env \<Rightarrow> bool" where
  "checkAuth authHeader env =
     (if \<not> startsWith authHeader ''Basic '' then False
      else let encoded = drop 6 authHeader in
        case atob encoded of
          None \<Rightarrow> False
        | Some decoded \<Rightarrow>
            (case indexOf decoded (CHR '':'') of
               None \<Rightarrow> False
             | Some sep \<Rightarrow>
                 (let user = take sep decoded;
                      pass = drop (sep + 1) decoded
                  in Some user = WEBDAV_USER env \<and> Some pass = WEBDAV_PASS env)))"

subsection \<open>Path resolution\<close>

text \<open>
  The expression \<open>decodeURIComponent(pathname.replace(/^\/zotero\//, "").replace(/^\/+/, ""))\<close>,
  which \<open>fetch\<close>, \<open>handleMove\<close> and \<open>handleCopy\<close> each write out: the two anchored
  replacements first, the decoding last.
\<close>

definition replace_zotero :: "string \<Rightarrow> string" where
  "replace_zotero s = (if startsWith s ''/zotero/'' then drop (length ''/zotero/'') s else s)"

definition replace_slashes :: "string \<Rightarrow> string" where
  "replace_slashes s = dropWhile (\<lambda>c. c = CHR ''/'') s"

definition resolve_key :: "string \<Rightarrow> string option" where
  "resolve_key pathname = decodeURIComponent (replace_slashes (replace_zotero pathname))"

subsection \<open>Handlers\<close>

definition handleGetHead :: "env \<Rightarrow> string \<Rightarrow> string \<Rightarrow> outcome \<times> bucket" where
  "handleGetHead env k meth =
     (let (obj, B) = bucket_get (BUCKET env) k in
      case obj of
        None \<Rightarrow> (Returns \<lparr>status = 404, headers = [], resp_body = Some ''Not Found''\<rparr>, B)
      | Some x \<Rightarrow>
          (let hs = [(''Content-Length'', show_nat (obj_size x)), (''ETag'', etag x)] in
           if meth = ''HEAD''
           then (Returns \<lparr>status = 200, headers = hs, resp_body = None\<rparr>, B)
           else (Returns \<lparr>status = 200, headers = hs, resp_body = Some (body x)\<rparr>, B)))"

definition handlePut :: "platform \<Rightarrow> env \<Rightarrow> string \<Rightarrow> request \<Rightarrow> outcome \<times> bucket" where
  "handlePut P env k request =
     (let (x, B) = bucket_put P (BUCKET env) k (req_body request) [] in
      (Returns \<lparr>status = 201, headers = [], resp_body = None\<rparr>, B))"

definition handleMove :: "platform \<Rightarrow> env \<Rightarrow> string \<Rightarrow> request \<Rightarrow> outcome \<times> bucket" where
  "handleMove P env srcKey request =
     (case req_headers request ''Destination'' of
        None \<Rightarrow> (Returns \<lparr>status = 400, headers = [], resp_body = Some ''Bad Request''\<rparr>, BUCKET env)
      | Some dest \<Rightarrow>
          if dest = [] then
            (Returns \<lparr>status = 400, headers = [], resp_body = Some ''Bad Request''\<rparr>, BUCKET env)
          else (case URL_pathname P dest of
            None \<Rightarrow> (Throws TypeError, BUCKET env)
          | Some destPath \<Rightarrow>
              if \<not> startsWith destPath ''/zotero/'' then
                (Returns \<lparr>status = 403, headers = [], resp_body = Some ''Forbidden''\<rparr>, BUCKET env)
              else (case resolve_key destPath of
                None \<Rightarrow> (Throws URIError, BUCKET env)
              | Some destKey \<Rightarrow>
                  (let (obj, B1) = bucket_get (BUCKET env) srcKey in
                   case obj of
                     None \<Rightarrow>
                       (Returns \<lparr>status = 404, headers = [], resp_body = Some ''Not Found''\<rparr>, B1)
                   | Some x \<Rightarrow>
                       (let (y, B2) = bucket_put P B1 destKey (body x) (httpMetadata x);
                            B3 = bucket_delete B2 srcKey
                        in (Returns \<lparr>status = 201, headers = [], resp_body = None\<rparr>, B3))))))"

definition handleCopy :: "platform \<Rightarrow> env \<Rightarrow> string \<Rightarrow> request \<Rightarrow> outcome \<times> bucket" where
  "handleCopy P env srcKey request =
     (case req_headers request ''Destination'' of
        None \<Rightarrow> (Returns \<lparr>status = 400, headers = [], resp_body = Some ''Bad Request''\<rparr>, BUCKET env)
      | Some dest \<Rightarrow>
          if dest = [] then
            (Returns \<lparr>status = 400, headers = [], resp_body = Some ''Bad Request''\<rparr>, BUCKET env)
          else (case URL_pathname P dest of
            None \<Rightarrow> (Throws TypeError, BUCKET env)
          | Some destPath \<Rightarrow>
              if \<not> startsWith destPath ''/zotero/'' then
                (Returns \<lparr>status = 403, headers = [], resp_body = Some ''Forbidden''\<rparr>, BUCKET env)
              else (case resolve_key destPath of
                None \<Rightarrow> (Throws URIError, BUCKET env)
              | Some destKey \<Rightarrow>
                  (let (obj, B1) = bucket_get (BUCKET env) srcKey in
                   case obj of
                     None \<Rightarrow>
                       (Returns \<lparr>status = 404, headers = [], resp_body = Some ''Not Found''\<rparr>, B1)
                   | Some x \<Rightarrow>
                       (let (y, B2) = bucket_put P B1 destKey (body x) (httpMetadata x)
                        in (Returns \<lparr>status = 201, headers = [], resp_body = None\<rparr>, B2))))))"

definition handleDelete :: "env \<Rightarrow> string \<Rightarrow> outcome \<times> bucket" where
  "handleDelete env k =
     (let B = bucket_delete (BUCKET env) k in
      (Returns \<lparr>status = 204, headers = [], resp_body = None\<rparr>, B))"

definition handleMkcol :: "env \<Rightarrow> string \<Rightarrow> outcome \<times> bucket" where
  "handleMkcol env k = (Returns \<lparr>status = 201, headers = [], resp_body = None\<rparr>, BUCKET env)"

definition handleOptions :: response where
  "handleOptions =
     \<lparr>status = 204,
      headers = [(''Allow'', ''OPTIONS, GET, HEAD, PUT, DELETE, MKCOL, PROPFIND, MOVE, COPY''),
                 (''DAV'', ''1,2''), (''MS-Author-Via'', ''DAV'')],
      resp_body = None\<rparr>"

subsection \<open>PROPFIND\<close>

text \<open>The argument of \<open>buildPropResponse\<close>; \<open>obj = None\<close> is a missing or \<open>null\<close> object.\<close>

record propArgs =
  href :: string
  isCollection :: bool
  obj :: "r2object option"

definition buildPropResponse :: "platform \<Rightarrow> propArgs \<Rightarrow> string" where
  "buildPropResponse P a =
     (let lastModified =
            (case obj a of
               Some x \<Rightarrow> toUTCString P (uploaded x)
             | None \<Rightarrow> toUTCString P (Date_now P))
      in ''\<newline>  <d:response>\<newline>    <d:href>'' @ href a @ ''</d:href>\<newline>''
         @ ''    <d:propstat>\<newline>      <d:prop>\<newline>        <d:resourcetype>\<newline>''
         @ ''          '' @ (if isCollection a then ''<d:collection/>'' else []) @ ''\<newline>''
         @ ''        </d:resourcetype>\<newline>''
         @ ''        ''
         @ (case obj a of
              Some x \<Rightarrow> ''<d:getcontentlength>'' @ show_nat (obj_size x) @ ''</d:getcontentlength>''
            | None \<Rightarrow> [])
         @ ''\<newline>''
         @ ''        ''
         @ (case obj a of
              Some x \<Rightarrow> ''<d:getetag>\"'' @ etag x @ ''\"</d:getetag>''
            | None \<Rightarrow> [])
         @ ''\<newline>''
         @ ''        <d:getlastmodified>'' @ lastModified @ ''</d:getlastmodified>\<newline>''
         @ ''      </d:prop>\<newline>''
         @ ''      <d:status>HTTP/1.1 200 OK</d:status>\<newline>''
         @ ''    </d:propstat>\<newline>''
         @ ''  </d:response>'')"

text \<open>
  The prefix of the listing (\<open>const prefix = path.endsWith("/") ? path : path + "/"\<close>)
  and the two kinds of argument that the branch for children passes to
  \<open>buildPropResponse\<close>: the one for the requested collection and the one for a
  listed object.
\<close>

definition listing_prefix :: "string \<Rightarrow> string" where
  "listing_prefix path = (if endsWith path ''/'' then path else path @ ''/'')"

definition parent_entry :: "string \<Rightarrow> propArgs" where
  "parent_entry pathname =
     \<lparr>href = (if endsWith pathname ''/'' then pathname else pathname @ ''/''),
      isCollection = True, obj = None\<rparr>"

definition child_entry :: "platform \<Rightarrow> request \<Rightarrow> r2object \<Rightarrow> propArgs" where
  "child_entry P request x =
     \<lparr>href = URL_pathname_rel P (''/zotero/'' @ key x) (url request),
      isCollection = False, obj = Some x\<rparr>"

text \<open>
  The array \<open>responses\<close> before each element is rendered: the arguments of the calls
  of \<open>buildPropResponse\<close>, in the order they are pushed. \<open>pathname\<close> is
  \<open>baseUrl.pathname\<close> and \<open>depth\<close> the value of \<open>request.headers.get("Depth") || "0"\<close>.
\<close>

definition propfind_entries ::
  "platform \<Rightarrow> env \<Rightarrow> string \<Rightarrow> request \<Rightarrow> string \<Rightarrow> string \<Rightarrow> propArgs list \<times> bucket" where
  "propfind_entries P env path request pathname depth =
     (let prefix = listing_prefix path in
      if depth = ''0'' then
        (let (x, B) = (if path \<noteq> [] then bucket_get (BUCKET env) path else (None, BUCKET env))
         in ([\<lparr>href = pathname, isCollection = (x = None), obj = x\<rparr>], B))
      else
        (let (list, B) = bucket_list (BUCKET env) prefix
         in (parent_entry pathname # map (child_entry P request) list, B)))"

definition multistatus :: "string list \<Rightarrow> string" where
  "multistatus responses =
     ''<?xml version=\"1.0\" encoding=\"UTF-8\"?>\<newline>''
     @ ''<d:multistatus xmlns:d=\"DAV:\">\<newline>''
     @ join ''\<newline>'' responses @ ''\<newline>''
     @ ''</d:multistatus>''"

definition handlePropfind :: "platform \<Rightarrow> env \<Rightarrow> string \<Rightarrow> request \<Rightarrow> outcome \<times> bucket" where
  "handlePropfind P env path request =
     (let depth = (case req_headers request ''Depth'' of
                     None \<Rightarrow> ''0''
                   | Some d \<Rightarrow> if d = [] then ''0'' else d)
      in case URL_pathname P (url request) of
           None \<Rightarrow> (Throws TypeError, BUCKET env)
         | Some pathname \<Rightarrow>
             (let (entries, B) = propfind_entries P env path request pathname depth;
                  responses = map (buildPropResponse P) entries
              in (Returns \<lparr>status = 207,
                            headers = [(''Content-Type'', ''application/xml; charset=utf-8'')],
                            resp_body = Some (multistatus responses)\<rparr>, B)))"

subsection \<open>The entry point\<close>

definition unauthorized :: response where
  "unauthorized =
     \<lparr>status = 401,
      headers = [(''WWW-Authenticate'', ''Basic realm=\"Zotero WebDAV\"'')],
      resp_body = Some ''Unauthorized''\<rparr>"

definition fetch :: "platform \<Rightarrow> request \<Rightarrow> env \<Rightarrow> outcome \<times> bucket" where
  "fetch P request env =
     (let auth = req_headers request ''Authorization'' in
      if (case auth of None \<Rightarrow> True | Some a \<Rightarrow> a = [] \<or> \<not> checkAuth a env)
      then (Returns unauthorized, BUCKET env)
      else (case URL_pathname P (url request) of
        None \<Rightarrow> (Throws TypeError, BUCKET env)
      | Some pathname \<Rightarrow>
          if \<not> startsWith pathname ''/zotero/''
          then (Returns \<lparr>status = 404, headers = [], resp_body = Some ''Not Found''\<rparr>, BUCKET env)
          else (case resolve_key pathname of
            None \<Rightarrow> (Throws URIError, BUCKET env)
          | Some path \<Rightarrow>
              (let meth = req_method request in
               if meth = ''GET'' \<or> meth = ''HEAD'' then handleGetHead env path meth
               else if meth = ''PUT'' then handlePut P env path request
               else if meth = ''MOVE'' then handleMove P env path request
               else if meth = ''COPY'' then handleCopy P env path request
               else if meth = ''DELETE'' then handleDelete env path
               else if meth = ''MKCOL'' then handleMkcol env path
               else if meth = ''PROPFIND'' then handlePropfind P env path request
               else if meth = ''OPTIONS'' then (Returns handleOptions, BUCKET env)
               else (Returns \<lparr>status = 405, headers = [],
                               resp_body = Some ''Method Not Allowed''\<rparr>, BUCKET env)))))"

subsection \<open>Reading an outcome\<close>

text \<open>A read succeeds with content \<open>b\<close>: the response has status 200 and body \<open>b\<close>.\<close>

definition succeeds_with :: "outcome \<Rightarrow> string \<Rightarrow> bool" where
  "succeeds_with out b =
     (case out of
        Returns r \<Rightarrow> status r = 200 \<and> resp_body r = Some b
      | Throws e \<Rightarrow> False)"

subsection \<open>A platform for the closed examples\<close>

text \<open>
  The examples below run the worker on URLs of the form \<open>https://h/...\<close> whose path
  needs no normalisation, so that the path name is the text after the host, and on
  keys that a URL holds unchanged. The dates are printed as numbers and the
  fingerprint of a content is the content in brackets.
\<close>

definition example_platform :: platform where
  "example_platform =
     \<lparr>URL_pathname = (\<lambda>s. if startsWith s ''https://h/'' then Some (drop 9 s) else None),
      URL_pathname_rel = (\<lambda>rel base. rel),
      Date_now = 0,
      toUTCString = show_nat,
      fingerprint = (\<lambda>v. ''['' @ v @ '']'')\<rparr>"

definition example_request :: "string \<Rightarrow> string \<Rightarrow> (string \<times> string) list \<Rightarrow> request" where
  "example_request m u hs = \<lparr>req_method = m, url = u, req_headers = map_of hs, req_body = []\<rparr>"

definition stored :: "string \<Rightarrow> string \<Rightarrow> r2object" where
  "stored k v =
     \<lparr>key = k, body = v, obj_size = length v, etag = ''['' @ v @ '']'', uploaded = 0,
      httpMetadata = []\<rparr>"

definition example_env :: "r2object list \<Rightarrow> env" where
  "example_env xs =
     \<lparr>WEBDAV_USER = Some ''user'', WEBDAV_PASS = Some ''pass'',
      BUCKET = \<lparr>objects = xs, calls = []\<rparr>\<rparr>"

section \<open>Properties of the store\<close>

lemma find_append_key:
  "find Q (xs @ ys) = (case find Q xs of None \<Rightarrow> find Q ys | Some x \<Rightarrow> Some x)"
  by (induction xs) auto

lemma find_removed: "find (\<lambda>x. key x = k) (filter (\<lambda>y. key y \<noteq> k) xs) = None"
  by (induction xs) auto

lemma find_kept:
  "k' \<noteq> k \<Longrightarrow>
   find (\<lambda>x. key x = k') (filter (\<lambda>y. key y \<noteq> k) xs) = find (\<lambda>x. key x = k') xs"
  by (induction xs) auto

lemma get_after_put_same:
  "find (\<lambda>x. key x = k) (objects (snd (bucket_put P B k v m))) = Some (fst (bucket_put P B k v m))"
  by (simp add: bucket_put_def Let_def find_append_key find_removed)

lemma get_after_put_other:
  "k' \<noteq> k \<Longrightarrow>
   find (\<lambda>x. key x = k') (objects (snd (bucket_put P B k v m))) =
   find (\<lambda>x. key x = k') (objects B)"
  by (simp add: bucket_put_def Let_def find_append_key find_kept split: option.splits)

lemma get_after_delete_same: "find (\<lambda>x. key x = k) (objects (bucket_delete B k)) = None"
  by (simp add: bucket_delete_def find_removed)

lemma get_after_delete_other:
  "k' \<noteq> k \<Longrightarrow>
   find (\<lambda>x. key x = k') (objects (bucket_delete B k)) = find (\<lambda>x. key x = k') (objects B)"
  by (simp add: bucket_delete_def find_kept)

lemma objects_after_get: "objects (snd (bucket_get B k)) = objects B"
  by (simp add: bucket_get_def)

lemma body_put: "body (fst (bucket_put P B k v m)) = v"
  by (simp add: bucket_put_def Let_def)

text \<open>The store keeps one object for each key: every operation preserves it.\<close>

lemma distinct_keys_filter:
  "distinct (map key xs) \<Longrightarrow> distinct (map key (filter Q xs))"
  by (induction xs) auto

lemma distinct_keys_put:
  "distinct (map key (objects B)) \<Longrightarrow> distinct (map key (objects (snd (bucket_put P B k v m))))"
  by (auto simp: bucket_put_def Let_def distinct_keys_filter)

lemma distinct_keys_delete:
  "distinct (map key (objects B)) \<Longrightarrow> distinct (map key (objects (bucket_delete B k)))"
  by (simp add: bucket_delete_def distinct_keys_filter)

section \<open>Reading back\<close>

lemma handleGetHead_found:
  "find (\<lambda>x. key x = k) (objects (BUCKET env)) = Some x \<Longrightarrow>
   fst (handleGetHead env k ''GET'') =
     Returns \<lparr>status = 200,
              headers = [(''Content-Length'', show_nat (obj_size x)), (''ETag'', etag x)],
              resp_body = Some (body x)\<rparr>"
  by (simp add: handleGetHead_def bucket_get_def)

lemma handleGetHead_missing:
  "find (\<lambda>x. key x = k) (objects (BUCKET env)) = None \<Longrightarrow>
   fst (handleGetHead env k meth) =
     Returns \<lparr>status = 404, headers = [], resp_body = Some ''Not Found''\<rparr>"
  by (simp add: handleGetHead_def bucket_get_def)

lemma handleGetHead_succeeds:
  "find (\<lambda>x. key x = k) (objects (BUCKET env)) = Some x \<Longrightarrow>
   succeeds_with (fst (handleGetHead env k ''GET'')) (body x)"
  by (simp add: handleGetHead_found succeeds_with_def)

section \<open>Evaluation on the examples\<close>

lemma char_of_bits:
  "char_of (n::nat) = Char (odd n) (odd (n div 2)) (odd (n div 4)) (odd (n div 8))
     (odd (n div 16)) (odd (n div 32)) (odd (n div 64)) (odd (n div 128))"
  by (simp add: char_of_def bit_iff_odd)

lemma atob_user_pass: "atob ''dXNlcjpwYXNz'' = Some ''user:pass''"
  by (simp add: atob_def strip_padding_def endsWith_def is_ascii_whitespace_def b64val_def
      Let_def char_of_bits)

lemma checkAuth_user_pass: "checkAuth ''Basic dXNlcjpwYXNz'' (example_env xs)"
  by (simp add: checkAuth_def startsWith_def atob_user_pass example_env_def)

lemma checkAuth_bucket: "checkAuth a (env\<lparr>BUCKET := B\<rparr>) = checkAuth a env"
  by (simp add: checkAuth_def Let_def split: option.splits)

lemma example_bucket: "BUCKET (example_env xs) = \<lparr>objects = xs, calls = []\<rparr>"
  by (simp add: example_env_def)

lemma example_pathname:
  "URL_pathname example_platform (''https://h/'' @ p) = Some (CHR ''/'' # p)"
  by (simp add: example_platform_def startsWith_def)

lemma resolve_key_plain:
  "resolve_key ''/zotero/a'' = Some ''a''" "resolve_key ''/zotero/b'' = Some ''b''"
  by (simp_all add: resolve_key_def replace_zotero_def replace_slashes_def startsWith_def)

section \<open>PUT, GET and DELETE\<close>

text \<open>
  C5. PUT of content \<open>b\<close> at key \<open>k\<close> is answered 201; a GET of \<open>k\<close> afterwards is
  answered 200 with exactly the bytes \<open>b\<close>, and its ETag header is the etag of the
  object that the store's put created.
\<close>

theorem put_then_get:
  "handlePut P env k request =
     (Returns \<lparr>status = 201, headers = [], resp_body = None\<rparr>,
      snd (bucket_put P (BUCKET env) k (req_body request) []))
   \<and> fst (handleGetHead (env\<lparr>BUCKET := snd (handlePut P env k request)\<rparr>) k ''GET'') =
       Returns \<lparr>status = 200,
                headers = [(''Content-Length'', show_nat (length (req_body request))),
                           (''ETag'', etag (fst (bucket_put P (BUCKET env) k (req_body request) [])))],
                resp_body = Some (req_body request)\<rparr>"
proof -
  let ?w = "bucket_put P (BUCKET env) k (req_body request) []"
  have put: "handlePut P env k request =
      (Returns \<lparr>status = 201, headers = [], resp_body = None\<rparr>, snd ?w)"
    by (simp add: handlePut_def split_beta)
  have stored: "find (\<lambda>x. key x = k) (objects (BUCKET (env\<lparr>BUCKET := snd ?w\<rparr>))) = Some (fst ?w)"
    by (simp add: get_after_put_same)
  have fields: "obj_size (fst ?w) = length (req_body request)" "body (fst ?w) = req_body request"
    by (simp_all add: bucket_put_def Let_def)
  show ?thesis
    using handleGetHead_found [OF stored] by (simp add: put fields)
qed

text \<open>
  C7. DELETE of key \<open>k\<close> is answered 204 whatever the store holds; a second DELETE
  of \<open>k\<close> is answered 204 as well and leaves the objects of the store as the first
  one left them, with no object at \<open>k\<close>.
\<close>

theorem delete_idempotent:
  "fst (handleDelete env k) = Returns \<lparr>status = 204, headers = [], resp_body = None\<rparr>
   \<and> fst (handleDelete (env\<lparr>BUCKET := snd (handleDelete env k)\<rparr>) k) =
       Returns \<lparr>status = 204, headers = [], resp_body = None\<rparr>
   \<and> objects (snd (handleDelete (env\<lparr>BUCKET := snd (handleDelete env k)\<rparr>) k)) =
       objects (snd (handleDelete env k))
   \<and> find (\<lambda>x. key x = k) (objects (snd (handleDelete env k))) = None"
  by (simp add: handleDelete_def bucket_delete_def find_removed)

section \<open>MOVE and COPY\<close>

lemma move_result:
  assumes "req_headers request ''Destination'' = Some dest" "dest \<noteq> []"
    "URL_pathname P dest = Some destPath" "startsWith destPath ''/zotero/''"
    "resolve_key destPath = Some d"
    "find (\<lambda>x. key x = s) (objects (BUCKET env)) = Some x"
  shows "handleMove P env s request =
    (Returns \<lparr>status = 201, headers = [], resp_body = None\<rparr>,
     bucket_delete (snd (bucket_put P (snd (bucket_get (BUCKET env) s)) d (body x) (httpMetadata x))) s)"
  using assms by (simp add: handleMove_def bucket_get_def split_beta Let_def)

lemma copy_result:
  assumes "req_headers request ''Destination'' = Some dest" "dest \<noteq> []"
    "URL_pathname P dest = Some destPath" "startsWith destPath ''/zotero/''"
    "resolve_key destPath = Some d"
    "find (\<lambda>x. key x = s) (objects (BUCKET env)) = Some x"
  shows "handleCopy P env s request =
    (Returns \<lparr>status = 201, headers = [], resp_body = None\<rparr>,
     snd (bucket_put P (snd (bucket_get (BUCKET env) s)) d (body x) (httpMetadata x)))"
  using assms by (simp add: handleCopy_def bucket_get_def split_beta Let_def)

text \<open>
  C3 (as amended). Let the source key \<open>s\<close> hold content \<open>b\<close> and let the Destination
  header resolve to the key \<open>d\<close>. After MOVE with \<open>d \<noteq> s\<close>, a GET of \<open>d\<close> returns
  \<open>b\<close> with status 200 and a GET of \<open>s\<close> is answered 404 Not Found. After COPY, for
  every \<open>d\<close> (also \<open>d = s\<close>), a GET of \<open>d\<close> returns \<open>b\<close> and a GET of \<open>s\<close> still
  returns \<open>b\<close>. Both requests are answered 201.
\<close>

theorem move_copy_then_get:
  assumes dest: "req_headers request ''Destination'' = Some dest" "dest \<noteq> []"
    "URL_pathname P dest = Some destPath" "startsWith destPath ''/zotero/''"
    "resolve_key destPath = Some d"
    and src: "find (\<lambda>x. key x = s) (objects (BUCKET env)) = Some x" "body x = b"
  shows "(d \<noteq> s \<longrightarrow>
           fst (handleMove P env s request) =
             Returns \<lparr>status = 201, headers = [], resp_body = None\<rparr>
         \<and> succeeds_with
             (fst (handleGetHead (env\<lparr>BUCKET := snd (handleMove P env s request)\<rparr>) d ''GET'')) b
         \<and> fst (handleGetHead (env\<lparr>BUCKET := snd (handleMove P env s request)\<rparr>) s ''GET'') =
             Returns \<lparr>status = 404, headers = [], resp_body = Some ''Not Found''\<rparr>)
       \<and> fst (handleCopy P env s request) =
             Returns \<lparr>status = 201, headers = [], resp_body = None\<rparr>
       \<and> succeeds_with
             (fst (handleGetHead (env\<lparr>BUCKET := snd (handleCopy P env s request)\<rparr>) d ''GET'')) b
       \<and> succeeds_with
             (fst (handleGetHead (env\<lparr>BUCKET := snd (handleCopy P env s request)\<rparr>) s ''GET'')) b"
proof -
  let ?B1 = "snd (bucket_get (BUCKET env) s)"
  let ?w = "bucket_put P ?B1 d b (httpMetadata x)"
  note mv = move_result [OF dest src(1), unfolded src(2)]
  note cp = copy_result [OF dest src(1), unfolded src(2)]
  have at_d: "find (\<lambda>y. key y = d) (objects (snd ?w)) = Some (fst ?w)"
    by (rule get_after_put_same)
  have at_s: "find (\<lambda>y. key y = s) (objects (snd ?w)) = Some (if d = s then fst ?w else x)"
    using src(1) by (simp add: get_after_put_same get_after_put_other objects_after_get)
  have body_s: "body (if d = s then fst ?w else x) = b"
    using src(2) by (simp add: body_put)
  have copy_d: "succeeds_with
      (fst (handleGetHead (env\<lparr>BUCKET := snd (handleCopy P env s request)\<rparr>) d ''GET'')) b"
    using handleGetHead_succeeds [of d "env\<lparr>BUCKET := snd ?w\<rparr>" "fst ?w"] at_d
    by (simp add: cp body_put)
  have copy_s: "succeeds_with
      (fst (handleGetHead (env\<lparr>BUCKET := snd (handleCopy P env s request)\<rparr>) s ''GET'')) b"
    using handleGetHead_succeeds [of s "env\<lparr>BUCKET := snd ?w\<rparr>" "if d = s then fst ?w else x"]
      at_s body_s
    by (simp add: cp)
  have move_s: "fst (handleGetHead (env\<lparr>BUCKET := snd (handleMove P env s request)\<rparr>) s ''GET'') =
      Returns \<lparr>status = 404, headers = [], resp_body = Some ''Not Found''\<rparr>"
    by (rule handleGetHead_missing) (simp add: mv get_after_delete_same)
  have move_d: "succeeds_with
      (fst (handleGetHead (env\<lparr>BUCKET := snd (handleMove P env s request)\<rparr>) d ''GET'')) b"
    if "d \<noteq> s"
    using handleGetHead_succeeds [of d "env\<lparr>BUCKET := bucket_delete (snd ?w) s\<rparr>" "fst ?w"]
      at_d that
    by (simp add: mv body_put get_after_delete_other)
  show ?thesis
    using copy_d copy_s move_s move_d by (simp add: mv cp)
qed

theorem move_copy_then_get_witness:
  "succeeds_with
     (fst (handleGetHead
        ((example_env [stored ''a'' ''hi''])
           \<lparr>BUCKET := snd (handleMove example_platform (example_env [stored ''a'' ''hi'']) ''a''
              (example_request ''MOVE'' ''https://h/zotero/a''
                 [(''Destination'', ''https://h/zotero/b'')]))\<rparr>) ''b'' ''GET'')) ''hi''
   \<and> fst (handleGetHead
        ((example_env [stored ''a'' ''hi''])
           \<lparr>BUCKET := snd (handleMove example_platform (example_env [stored ''a'' ''hi'']) ''a''
              (example_request ''MOVE'' ''https://h/zotero/a''
                 [(''Destination'', ''https://h/zotero/b'')]))\<rparr>) ''a'' ''GET'') =
       Returns \<lparr>status = 404, headers = [], resp_body = Some ''Not Found''\<rparr>
   \<and> succeeds_with
     (fst (handleGetHead
        ((example_env [stored ''a'' ''hi''])
           \<lparr>BUCKET := snd (handleCopy example_platform (example_env [stored ''a'' ''hi'']) ''a''
              (example_request ''MOVE'' ''https://h/zotero/a''
                 [(''Destination'', ''https://h/zotero/b'')]))\<rparr>) ''a'' ''GET'')) ''hi''"
proof -
  have h1: "req_headers (example_request ''MOVE'' ''https://h/zotero/a''
      [(''Destination'', ''https://h/zotero/b'')]) ''Destination'' = Some ''https://h/zotero/b''"
    by (simp add: example_request_def)
  have h2: "''https://h/zotero/b'' \<noteq> []" by simp
  have h3: "URL_pathname example_platform ''https://h/zotero/b'' = Some ''/zotero/b''"
    using example_pathname [of "''zotero/b''"] by simp
  have h4: "startsWith ''/zotero/b'' ''/zotero/''" by (simp add: startsWith_def)
  have h5: "resolve_key ''/zotero/b'' = Some ''b''" by (rule resolve_key_plain)
  have h6: "find (\<lambda>x. key x = ''a'') (objects (BUCKET (example_env [stored ''a'' ''hi'']))) =
      Some (stored ''a'' ''hi'')"
    by (simp add: example_env_def stored_def)
  have h7: "body (stored ''a'' ''hi'') = ''hi''" by (simp add: stored_def)
  show ?thesis
    using move_copy_then_get [OF h1 h2 h3 h4 h5 h6 h7] by simp
qed

text \<open>
  C3 as stated includes a destination that resolves to the source key. There MOVE
  writes the object back and then deletes it: the store is left empty and a GET of
  the destination is answered 404.
\<close>

theorem move_onto_itself_counterexample:
  "fetch example_platform
     (example_request ''MOVE'' ''https://h/zotero/a''
        [(''Authorization'', ''Basic dXNlcjpwYXNz''), (''Destination'', ''https://h/zotero/a'')])
     (example_env [stored ''a'' ''hi'']) =
     (Returns \<lparr>status = 201, headers = [], resp_body = None\<rparr>,
      \<lparr>objects = [], calls = [Get ''a'', Put ''a'', Delete ''a'']\<rparr>)
   \<and> fetch example_platform
       (example_request ''GET'' ''https://h/zotero/a'' [(''Authorization'', ''Basic dXNlcjpwYXNz'')])
       ((example_env [stored ''a'' ''hi''])
          \<lparr>BUCKET := \<lparr>objects = [], calls = [Get ''a'', Put ''a'', Delete ''a'']\<rparr>\<rparr>) =
     (Returns \<lparr>status = 404, headers = [], resp_body = Some ''Not Found''\<rparr>,
      \<lparr>objects = [], calls = [Get ''a'', Put ''a'', Delete ''a'', Get ''a'']\<rparr>)"
proof -
  have p: "URL_pathname example_platform ''https://h/zotero/a'' = Some ''/zotero/a''"
    using example_pathname [of "''zotero/a''"] by simp
  have a: "checkAuth ''Basic dXNlcjpwYXNz'' ((example_env xs)\<lparr>BUCKET := B\<rparr>)" for xs B
    by (simp only: checkAuth_bucket checkAuth_user_pass)
  show ?thesis
    by (simp add: fetch_def example_request_def checkAuth_user_pass a p resolve_key_plain
        startsWith_def handleMove_def handleGetHead_def bucket_get_def bucket_put_def
        bucket_delete_def Let_def example_bucket stored_def)
qed




section \<open>Path resolution\<close>

lemma of_char_natD: "(of_char c :: nat) = n \<Longrightarrow> c = char_of n"
  by (metis char_of_char)

lemma hexval_bound: "hexval c = Some h \<Longrightarrow> h < 16"
  by (auto simp: hexval_def Let_def split: if_splits)

lemma hexval_2: "hexval a = Some 2 \<longleftrightarrow> a = CHR ''2''"
proof
  assume "hexval a = Some 2"
  then have "(of_char a :: nat) = 50"
    by (auto simp: hexval_def Let_def split: if_splits)
  then show "a = CHR ''2''"
    by (auto dest!: of_char_natD simp: char_of_bits)
next
  assume "a = CHR ''2''"
  then show "hexval a = Some 2" by (simp add: hexval_def)
qed

lemma hexval_15: "hexval b = Some 15 \<longleftrightarrow> b = CHR ''F'' \<or> b = CHR ''f''"
proof
  assume "hexval b = Some 15"
  then have "(of_char b :: nat) = 70 \<or> (of_char b :: nat) = 102"
    by (auto simp: hexval_def Let_def split: if_splits)
  then show "b = CHR ''F'' \<or> b = CHR ''f''"
    by (auto dest!: of_char_natD simp: char_of_bits)
next
  assume "b = CHR ''F'' \<or> b = CHR ''f''"
  then show "hexval b = Some 15" by (auto simp: hexval_def)
qed

lemma ParseHexOctet_bound: "ParseHexOctet a b = Some B \<Longrightarrow> B < 256"
  by (auto simp: ParseHexOctet_def split: option.splits dest!: hexval_bound)

lemma ParseHexOctet_slash:
  "ParseHexOctet a b = Some 47 \<longleftrightarrow> a = CHR ''2'' \<and> (b = CHR ''F'' \<or> b = CHR ''f'')"
proof -
  have "16 * h + l = 47 \<longleftrightarrow> h = 2 \<and> l = 15" if "h < 16" "l < 16" for h l :: nat
    using that by arith
  then have "ParseHexOctet a b = Some 47 \<longleftrightarrow> hexval a = Some 2 \<and> hexval b = Some 15"
    by (auto simp: ParseHexOctet_def split: option.splits dest: hexval_bound)
  then show ?thesis by (simp add: hexval_2 hexval_15)
qed

lemma char_of_slash: "B < 256 \<Longrightarrow> char_of (B::nat) = CHR ''/'' \<longleftrightarrow> B = 47"
  by (simp add: char_of_eq_iff take_bit_eq_mod)

lemma startsWith_Cons1: "startsWith (c # k) [d] \<longleftrightarrow> c = d"
  by (simp add: startsWith_def)

lemma decode_leading_slash:
  assumes "decodeURIComponent s = Some k" and "\<not> startsWith s ''/''"
  shows "startsWith k ''/'' \<longleftrightarrow> startsWith s ''%2F'' \<or> startsWith s ''%2f''"
proof (cases s)
  case Nil
  with assms show ?thesis by (simp add: startsWith_def)
next
  case (Cons c s')
  show ?thesis
  proof (cases "c = CHR ''%''")
    case False
    with assms Cons show ?thesis by (auto simp: startsWith_def)
  next
    case True
    with assms(1) Cons obtain a b r B where s': "s' = a # b # r" and B: "ParseHexOctet a b = Some B"
      by (auto split: list.splits option.splits)
    from B have lt: "B < 256" by (rule ParseHexOctet_bound)
    have rhs: "startsWith s ''%2F'' \<or> startsWith s ''%2f'' \<longleftrightarrow> B = 47"
      using ParseHexOctet_slash [of a b] B Cons True s' by (auto simp: startsWith_def)
    show ?thesis
    proof (cases "leading_ones B = 0")
      case z: True
      with assms(1) Cons True s' B obtain k' where "k = char_of B # k'"
        by auto
      then show ?thesis using rhs lt by (simp add: startsWith_Cons1 char_of_slash)
    next
      case nz: False
      then have big: "128 \<le> B" by (auto simp: leading_ones_def split: if_splits)
      from assms(1) Cons True s' B nz obtain vs k' where "k = map char_of (B # vs) @ k'"
        by (auto split: if_splits option.splits)
      then have "startsWith k ''/'' \<longleftrightarrow> char_of B = CHR ''/''"
        by (simp add: startsWith_Cons1)
      then show ?thesis using rhs lt big by (simp add: char_of_slash)
    qed
  qed
qed

lemma replace_zotero_prefix: "replace_zotero (''/zotero/'' @ r) = r"
  by (simp add: replace_zotero_def startsWith_def)

lemma dropWhile_no_slash: "\<not> startsWith (dropWhile (\<lambda>c. c = CHR ''/'') r) ''/''"
  by (induction r) (auto simp: startsWith_def)

text \<open>
  C2 (as amended). For a path name that starts with \<open>/zotero/\<close>, the key is obtained
  by stripping the literal leading slashes of the remainder first and
  percent-decoding the result afterwards. Hence, when the decoding succeeds, the key
  starts with a slash exactly when the remainder, after its literal leading slashes,
  starts with the escape \<open>%2F\<close> or \<open>%2f\<close>.
\<close>

theorem resolve_key_strips_then_decodes:
  "resolve_key (''/zotero/'' @ r) = decodeURIComponent (dropWhile (\<lambda>c. c = CHR ''/'') r)
   \<and> (resolve_key (''/zotero/'' @ r) = Some k \<longrightarrow>
        (startsWith k ''/'' \<longleftrightarrow>
           startsWith (dropWhile (\<lambda>c. c = CHR ''/'') r) ''%2F''
           \<or> startsWith (dropWhile (\<lambda>c. c = CHR ''/'') r) ''%2f''))"
proof -
  have eq: "resolve_key (''/zotero/'' @ r) = decodeURIComponent (dropWhile (\<lambda>c. c = CHR ''/'') r)"
    by (simp only: resolve_key_def replace_zotero_prefix replace_slashes_def)
  show ?thesis
    unfolding eq using decode_leading_slash [OF _ dropWhile_no_slash, of r k] by blast
qed

theorem resolve_key_strips_then_decodes_witness:
  "resolve_key (''/zotero/'' @ ''%2Ffoo'') = Some ''/foo''
   \<and> startsWith ''/foo'' ''/''
   \<and> startsWith (dropWhile (\<lambda>c. c = CHR ''/'') ''%2Ffoo'') ''%2F''"
proof -
  have h: "resolve_key (''/zotero/'' @ ''%2Ffoo'') = Some ''/foo''"
    by (simp add: resolve_key_def replace_zotero_def replace_slashes_def startsWith_def
        ParseHexOctet_def hexval_def leading_ones_def char_of_bits)
  show ?thesis
    using resolve_key_strips_then_decodes [of "''%2Ffoo''" "''/foo''"] h
    by (simp add: startsWith_def)
qed

text \<open>
  C2 as stated has the remainder \<open>%2Ffoo\<close> resolve to a key without a leading slash.
  The worker reads the key \<open>/foo\<close>.
\<close>

theorem encoded_slash_counterexample:
  "resolve_key ''/zotero/%2Ffoo'' = Some ''/foo''
   \<and> fetch example_platform
       (example_request ''GET'' ''https://h/zotero/%2Ffoo''
          [(''Authorization'', ''Basic dXNlcjpwYXNz'')])
       (example_env [stored ''/foo'' ''hi'']) =
     (Returns \<lparr>status = 200, headers = [(''Content-Length'', ''2''), (''ETag'', ''[hi]'')],
               resp_body = Some ''hi''\<rparr>,
      \<lparr>objects = [stored ''/foo'' ''hi''], calls = [Get ''/foo'']\<rparr>)"
proof -
  have k: "resolve_key ''/zotero/%2Ffoo'' = Some ''/foo''"
    by (simp add: resolve_key_def replace_zotero_def replace_slashes_def startsWith_def
        ParseHexOctet_def hexval_def leading_ones_def char_of_bits)
  have p: "URL_pathname example_platform ''https://h/zotero/%2Ffoo'' = Some ''/zotero/%2Ffoo''"
    using example_pathname [of "''zotero/%2Ffoo''"] by simp
  have n: "show_nat (Suc (Suc 0)) = ''2''"
    by (simp add: show_nat.simps)
  have g: "fetch example_platform
       (example_request ''GET'' ''https://h/zotero/%2Ffoo''
          [(''Authorization'', ''Basic dXNlcjpwYXNz'')])
       (example_env [stored ''/foo'' ''hi'']) =
     handleGetHead (example_env [stored ''/foo'' ''hi'']) ''/foo'' ''GET''"
    by (simp add: fetch_def example_request_def checkAuth_user_pass p k startsWith_def)
  show ?thesis
    unfolding g
    by (simp add: k handleGetHead_def bucket_get_def example_bucket stored_def n)
qed

section \<open>Authentication\<close>

lemma indexOf_None: "indexOf s c = None \<longleftrightarrow> c \<notin> set s"
  by (induction s) auto

lemma indexOf_first: "c \<notin> set u \<Longrightarrow> indexOf (u @ c # p) c = Some (length u)"
  by (induction u) auto


lemma checkAuth_not_basic: "\<not> startsWith a ''Basic '' \<Longrightarrow> \<not> checkAuth a env"
  by (simp add: checkAuth_def)

lemma checkAuth_undecodable:
  "atob (drop 6 a) = None \<Longrightarrow> \<not> checkAuth a env"
  by (simp add: checkAuth_def)

lemma checkAuth_no_colon:
  "atob (drop 6 a) = Some d \<Longrightarrow> CHR '':'' \<notin> set d \<Longrightarrow> \<not> checkAuth a env"
  using indexOf_None [of d "CHR '':''"] by (simp add: checkAuth_def)

lemma checkAuth_decoded:
  assumes "startsWith a ''Basic ''" and "atob (drop 6 a) = Some (u @ c # p)"
    and "c = CHR '':''" and "c \<notin> set u"
  shows "checkAuth a env \<longleftrightarrow> WEBDAV_USER env = Some u \<and> WEBDAV_PASS env = Some p"
  using assms by (auto simp: checkAuth_def indexOf_first)

lemma basic_prefix: "startsWith (''Basic '' @ e) ''Basic ''" "drop 6 (''Basic '' @ e) = e"
  by (simp_all add: startsWith_def)

text \<open>
  C6. A request is answered 401 with the header \<open>WWW-Authenticate\<close>, whatever its
  method and URL, when its Authorization header is missing, does not start with the
  scheme \<open>Basic\<close>, carries text that \<open>atob\<close> rejects, decodes to a text without a
  colon, or decodes to \<open>user:password\<close> (split at the first colon) where the user
  or the password differs from the configured one.
\<close>

theorem rejected_credentials:
  assumes
    "req_headers request ''Authorization'' = None
     \<or> (req_headers request ''Authorization'' = Some a \<and> \<not> startsWith a ''Basic '')
     \<or> (req_headers request ''Authorization'' = Some (''Basic '' @ e)
         \<and> (atob e = None
            \<or> (atob e = Some d \<and> CHR '':'' \<notin> set d)
            \<or> (atob e = Some (u @ '':'' @ p) \<and> CHR '':'' \<notin> set u
                \<and> (WEBDAV_USER env \<noteq> Some u \<or> WEBDAV_PASS env \<noteq> Some p))))"
  shows "fetch P request env =
    (Returns \<lparr>status = 401,
              headers = [(''WWW-Authenticate'', ''Basic realm=\"Zotero WebDAV\"'')],
              resp_body = Some ''Unauthorized''\<rparr>, BUCKET env)"
proof -
  define h where "h = ''Basic '' @ e"
  have sw: "startsWith h ''Basic ''" and dr: "drop 6 h = e"
    unfolding h_def by (rule basic_prefix)+
  have split: "u @ '':'' @ p = u @ CHR '':'' # p" by simp
  have "case req_headers request ''Authorization'' of
          None \<Rightarrow> True | Some x \<Rightarrow> x = [] \<or> \<not> checkAuth x env"
    using assms unfolding h_def [symmetric] split
  proof (elim disjE conjE)
    assume "req_headers request ''Authorization'' = None"
    then show ?thesis by simp
  next
    assume "req_headers request ''Authorization'' = Some a" "\<not> startsWith a ''Basic ''"
    then show ?thesis by (simp add: checkAuth_not_basic)
  next
    assume "req_headers request ''Authorization'' = Some h" "atob e = None"
    then show ?thesis using checkAuth_undecodable [of h env] by (simp add: dr)
  next
    assume "req_headers request ''Authorization'' = Some h"
      "atob e = Some d" "CHR '':'' \<notin> set d"
    then show ?thesis using checkAuth_no_colon [of h d env] by (simp add: dr)
  next
    assume "req_headers request ''Authorization'' = Some h"
      and "atob e = Some (u @ CHR '':'' # p)" and "CHR '':'' \<notin> set u"
      and "WEBDAV_USER env \<noteq> Some u"
    then show ?thesis
      using checkAuth_decoded [OF sw _ refl, of u p env] by (simp add: dr)
  next
    assume "req_headers request ''Authorization'' = Some h"
      and "atob e = Some (u @ CHR '':'' # p)" and "CHR '':'' \<notin> set u"
      and "WEBDAV_PASS env \<noteq> Some p"
    then show ?thesis
      using checkAuth_decoded [OF sw _ refl, of u p env] by (simp add: dr)
  qed
  then show ?thesis
    by (simp add: fetch_def unauthorized_def)
qed

lemma atob_examples:
  "atob ''!!!'' = None" "atob ''dXNlcg=='' = Some ''user''"
  "atob ''dXNlcjp3cm9uZw=='' = Some ''user:wrong''"
  by (simp_all add: atob_def strip_padding_def endsWith_def is_ascii_whitespace_def b64val_def
      Let_def char_of_bits)

theorem rejected_credentials_witness:
  "fetch example_platform (example_request ''BREW'' ''https://h/other'' []) (example_env []) =
     (Returns \<lparr>status = 401,
               headers = [(''WWW-Authenticate'', ''Basic realm=\"Zotero WebDAV\"'')],
               resp_body = Some ''Unauthorized''\<rparr>, \<lparr>objects = [], calls = []\<rparr>)
   \<and> fetch example_platform
       (example_request ''GET'' ''https://h/zotero/a'' [(''Authorization'', ''Bearer abc'')])
       (example_env []) =
     (Returns \<lparr>status = 401,
               headers = [(''WWW-Authenticate'', ''Basic realm=\"Zotero WebDAV\"'')],
               resp_body = Some ''Unauthorized''\<rparr>, \<lparr>objects = [], calls = []\<rparr>)
   \<and> fetch example_platform
       (example_request ''GET'' ''https://h/zotero/a'' [(''Authorization'', ''Basic !!!'')])
       (example_env []) =
     (Returns \<lparr>status = 401,
               headers = [(''WWW-Authenticate'', ''Basic realm=\"Zotero WebDAV\"'')],
               resp_body = Some ''Unauthorized''\<rparr>, \<lparr>objects = [], calls = []\<rparr>)
   \<and> fetch example_platform
       (example_request ''GET'' ''https://h/zotero/a'' [(''Authorization'', ''Basic dXNlcg=='')])
       (example_env []) =
     (Returns \<lparr>status = 401,
               headers = [(''WWW-Authenticate'', ''Basic realm=\"Zotero WebDAV\"'')],
               resp_body = Some ''Unauthorized''\<rparr>, \<lparr>objects = [], calls = []\<rparr>)
   \<and> fetch example_platform
       (example_request ''GET'' ''https://h/zotero/a''
          [(''Authorization'', ''Basic dXNlcjp3cm9uZw=='')])
       (example_env []) =
     (Returns \<lparr>status = 401,
               headers = [(''WWW-Authenticate'', ''Basic realm=\"Zotero WebDAV\"'')],
               resp_body = Some ''Unauthorized''\<rparr>, \<lparr>objects = [], calls = []\<rparr>)"
proof -
  have missing:
    "req_headers (example_request ''BREW'' ''https://h/other'' []) ''Authorization'' = None"
    by (simp add: example_request_def)
  have hdr: "req_headers (example_request ''GET'' ''https://h/zotero/a'' [(''Authorization'', v)])
      ''Authorization'' = Some v" for v
    by (simp add: example_request_def)
  have bearer: "\<not> startsWith ''Bearer abc'' ''Basic ''"
    by (simp add: startsWith_def)
  have c1: "fetch example_platform (example_request ''BREW'' ''https://h/other'' []) (example_env []) =
     (Returns \<lparr>status = 401,
               headers = [(''WWW-Authenticate'', ''Basic realm=\"Zotero WebDAV\"'')],
               resp_body = Some ''Unauthorized''\<rparr>, BUCKET (example_env []))"
    using missing by (intro rejected_credentials) simp
  have c2: "fetch example_platform
       (example_request ''GET'' ''https://h/zotero/a'' [(''Authorization'', ''Bearer abc'')])
       (example_env []) =
     (Returns \<lparr>status = 401,
               headers = [(''WWW-Authenticate'', ''Basic realm=\"Zotero WebDAV\"'')],
               resp_body = Some ''Unauthorized''\<rparr>, BUCKET (example_env []))"
    by (rule rejected_credentials [where a = "''Bearer abc''"]) (simp add: hdr bearer)
  have c3: "fetch example_platform
       (example_request ''GET'' ''https://h/zotero/a'' [(''Authorization'', ''Basic !!!'')])
       (example_env []) =
     (Returns \<lparr>status = 401,
               headers = [(''WWW-Authenticate'', ''Basic realm=\"Zotero WebDAV\"'')],
               resp_body = Some ''Unauthorized''\<rparr>, BUCKET (example_env []))"
    by (rule rejected_credentials [where e = "''!!!''"]) (simp add: hdr atob_examples)
  have c4: "fetch example_platform
       (example_request ''GET'' ''https://h/zotero/a'' [(''Authorization'', ''Basic dXNlcg=='')])
       (example_env []) =
     (Returns \<lparr>status = 401,
               headers = [(''WWW-Authenticate'', ''Basic realm=\"Zotero WebDAV\"'')],
               resp_body = Some ''Unauthorized''\<rparr>, BUCKET (example_env []))"
    by (rule rejected_credentials [where e = "''dXNlcg==''" and d = "''user''"])
      (simp add: hdr atob_examples)
  have c5: "fetch example_platform
       (example_request ''GET'' ''https://h/zotero/a''
          [(''Authorization'', ''Basic dXNlcjp3cm9uZw=='')])
       (example_env []) =
     (Returns \<lparr>status = 401,
               headers = [(''WWW-Authenticate'', ''Basic realm=\"Zotero WebDAV\"'')],
               resp_body = Some ''Unauthorized''\<rparr>, BUCKET (example_env []))"
    by (rule rejected_credentials [where e = "''dXNlcjp3cm9uZw==''" and u = "''user''"
          and p = "''wrong''"])
      (simp add: hdr atob_examples example_env_def)
  show ?thesis
    using c1 c2 c3 c4 c5 by (simp add: example_bucket)
qed

text \<open>
  C9. The credentials are checked before the URL is parsed and before the method is
  looked at. A request without an accepted Authorization header is answered 401 and
  the bucket receives no call, whatever the URL and the method. So every other
  outcome (a response with another status, or an exception) and every call to the
  store imply accepted credentials. With accepted credentials, a path outside
  \<open>/zotero/\<close> is answered 404 and an unsupported method 405.
\<close>

theorem credentials_checked_first:
  "((\<forall>a. req_headers request ''Authorization'' = Some a \<longrightarrow> \<not> checkAuth a env) \<longrightarrow>
      fetch P request env =
        (Returns \<lparr>status = 401,
                  headers = [(''WWW-Authenticate'', ''Basic realm=\"Zotero WebDAV\"'')],
                  resp_body = Some ''Unauthorized''\<rparr>, BUCKET env))
   \<and> (fst (fetch P request env) = Returns r \<and> status r \<noteq> 401 \<longrightarrow>
        (\<exists>a. req_headers request ''Authorization'' = Some a \<and> checkAuth a env))
   \<and> (fst (fetch P request env) = Throws x \<longrightarrow>
        (\<exists>a. req_headers request ''Authorization'' = Some a \<and> checkAuth a env))
   \<and> (calls (snd (fetch P request env)) \<noteq> calls (BUCKET env) \<longrightarrow>
        (\<exists>a. req_headers request ''Authorization'' = Some a \<and> checkAuth a env))
   \<and> (req_headers request ''Authorization'' = Some a \<and> checkAuth a env
        \<and> URL_pathname P (url request) = Some pathname \<and> \<not> startsWith pathname ''/zotero/'' \<longrightarrow>
        fetch P request env =
          (Returns \<lparr>status = 404, headers = [], resp_body = Some ''Not Found''\<rparr>, BUCKET env))
   \<and> (req_headers request ''Authorization'' = Some a \<and> checkAuth a env
        \<and> URL_pathname P (url request) = Some pathname \<and> startsWith pathname ''/zotero/''
        \<and> resolve_key pathname = Some path
        \<and> req_method request \<notin> {''GET'', ''HEAD'', ''PUT'', ''MOVE'', ''COPY'', ''DELETE'', ''MKCOL'',
             ''PROPFIND'', ''OPTIONS''} \<longrightarrow>
        fetch P request env =
          (Returns \<lparr>status = 405, headers = [], resp_body = Some ''Method Not Allowed''\<rparr>,
           BUCKET env))"
proof -
  let ?ok = "\<exists>a. req_headers request ''Authorization'' = Some a \<and> checkAuth a env"
  have empty: "\<not> checkAuth [] env"
    by (simp add: checkAuth_def startsWith_def)
  have rejected: "fetch P request env = (Returns unauthorized, BUCKET env)" if "\<not> ?ok"
  proof -
    from that empty
    have "case req_headers request ''Authorization'' of
            None \<Rightarrow> True | Some h \<Rightarrow> h = [] \<or> \<not> checkAuth h env"
      by (auto split: option.splits)
    then show ?thesis by (simp add: fetch_def)
  qed
  have accepted: "\<not> (case req_headers request ''Authorization'' of
            None \<Rightarrow> True | Some h \<Rightarrow> h = [] \<or> \<not> checkAuth h env)"
    if "req_headers request ''Authorization'' = Some a" "checkAuth a env"
    using that empty by auto
  have p1: "(\<forall>a. req_headers request ''Authorization'' = Some a \<longrightarrow> \<not> checkAuth a env) \<longrightarrow>
      fetch P request env =
        (Returns \<lparr>status = 401,
                  headers = [(''WWW-Authenticate'', ''Basic realm=\"Zotero WebDAV\"'')],
                  resp_body = Some ''Unauthorized''\<rparr>, BUCKET env)"
  proof
    assume "\<forall>a. req_headers request ''Authorization'' = Some a \<longrightarrow> \<not> checkAuth a env"
    then have "\<not> ?ok" by blast
    from rejected [OF this] show "fetch P request env =
        (Returns \<lparr>status = 401,
                  headers = [(''WWW-Authenticate'', ''Basic realm=\"Zotero WebDAV\"'')],
                  resp_body = Some ''Unauthorized''\<rparr>, BUCKET env)"
      by (simp add: unauthorized_def)
  qed
  have st: "status unauthorized = 401"
    by (simp add: unauthorized_def)
  have p2: "fst (fetch P request env) = Returns r \<and> status r \<noteq> 401 \<longrightarrow> ?ok"
  proof (rule impI, rule ccontr)
    assume r: "fst (fetch P request env) = Returns r \<and> status r \<noteq> 401" and no: "\<not> ?ok"
    from rejected [OF no] r have "r = unauthorized" by simp
    with r st show False by simp
  qed
  have p3: "fst (fetch P request env) = Throws x \<longrightarrow> ?ok"
  proof (rule impI, rule ccontr)
    assume t: "fst (fetch P request env) = Throws x" and no: "\<not> ?ok"
    from rejected [OF no] t show False by simp
  qed
  have p4: "calls (snd (fetch P request env)) \<noteq> calls (BUCKET env) \<longrightarrow> ?ok"
  proof (rule impI, rule ccontr)
    assume c: "calls (snd (fetch P request env)) \<noteq> calls (BUCKET env)" and no: "\<not> ?ok"
    from rejected [OF no] c show False by simp
  qed
  have p5: "req_headers request ''Authorization'' = Some a \<and> checkAuth a env
        \<and> URL_pathname P (url request) = Some pathname \<and> \<not> startsWith pathname ''/zotero/'' \<longrightarrow>
        fetch P request env =
          (Returns \<lparr>status = 404, headers = [], resp_body = Some ''Not Found''\<rparr>, BUCKET env)"
    using accepted by (simp add: fetch_def)
  have p6: "req_headers request ''Authorization'' = Some a \<and> checkAuth a env
        \<and> URL_pathname P (url request) = Some pathname \<and> startsWith pathname ''/zotero/''
        \<and> resolve_key pathname = Some path
        \<and> req_method request \<notin> {''GET'', ''HEAD'', ''PUT'', ''MOVE'', ''COPY'', ''DELETE'', ''MKCOL'',
             ''PROPFIND'', ''OPTIONS''} \<longrightarrow>
        fetch P request env =
          (Returns \<lparr>status = 405, headers = [], resp_body = Some ''Method Not Allowed''\<rparr>,
           BUCKET env)"
    using accepted by (simp add: fetch_def)
  from p1 p2 p3 p4 p5 p6 show ?thesis by blast
qed

theorem credentials_checked_first_witness:
  "fetch example_platform
       (example_request ''BREW'' ''https://h/other'' [(''Authorization'', ''Basic dXNlcjp3cm9uZw=='')])
       (example_env [stored ''a'' ''hi'']) =
     (Returns \<lparr>status = 401,
               headers = [(''WWW-Authenticate'', ''Basic realm=\"Zotero WebDAV\"'')],
               resp_body = Some ''Unauthorized''\<rparr>,
      \<lparr>objects = [stored ''a'' ''hi''], calls = []\<rparr>)
   \<and> fetch example_platform
       (example_request ''BREW'' ''https://h/other'' [(''Authorization'', ''Basic dXNlcjpwYXNz'')])
       (example_env [stored ''a'' ''hi'']) =
     (Returns \<lparr>status = 404, headers = [], resp_body = Some ''Not Found''\<rparr>,
      \<lparr>objects = [stored ''a'' ''hi''], calls = []\<rparr>)
   \<and> fetch example_platform
       (example_request ''BREW'' ''https://h/zotero/a'' [(''Authorization'', ''Basic dXNlcjpwYXNz'')])
       (example_env [stored ''a'' ''hi'']) =
     (Returns \<lparr>status = 405, headers = [], resp_body = Some ''Method Not Allowed''\<rparr>,
      \<lparr>objects = [stored ''a'' ''hi''], calls = []\<rparr>)"
proof -
  have hdr: "req_headers (example_request m u [(''Authorization'', v)]) ''Authorization'' = Some v"
    for m u v
    by (simp add: example_request_def)
  have bad: "\<not> checkAuth ''Basic dXNlcjp3cm9uZw=='' (example_env [stored ''a'' ''hi''])"
    by (simp add: checkAuth_def startsWith_def atob_examples example_env_def)
  have good: "checkAuth ''Basic dXNlcjpwYXNz'' (example_env [stored ''a'' ''hi''])"
    by (rule checkAuth_user_pass)
  have other: "URL_pathname example_platform (url (example_request ''BREW'' ''https://h/other'' hs)) =
      Some ''/other''" "\<not> startsWith ''/other'' ''/zotero/''" for hs
    using example_pathname [of "''other''"] by (simp_all add: example_request_def startsWith_def)
  have inside:
    "URL_pathname example_platform (url (example_request ''BREW'' ''https://h/zotero/a'' hs)) =
      Some ''/zotero/a''" "startsWith ''/zotero/a'' ''/zotero/''"
    "req_method (example_request ''BREW'' ''https://h/zotero/a'' hs) = ''BREW''" for hs
    using example_pathname [of "''zotero/a''"] by (simp_all add: example_request_def startsWith_def)
  have w1: "fetch example_platform
       (example_request ''BREW'' ''https://h/other'' [(''Authorization'', ''Basic dXNlcjp3cm9uZw=='')])
       (example_env [stored ''a'' ''hi'']) =
     (Returns \<lparr>status = 401,
               headers = [(''WWW-Authenticate'', ''Basic realm=\"Zotero WebDAV\"'')],
               resp_body = Some ''Unauthorized''\<rparr>, BUCKET (example_env [stored ''a'' ''hi'']))"
    using credentials_checked_first [of "example_request ''BREW'' ''https://h/other''
        [(''Authorization'', ''Basic dXNlcjp3cm9uZw=='')]" "example_env [stored ''a'' ''hi'']"
        example_platform] bad
    by (simp add: hdr)
  have w2: "fetch example_platform
       (example_request ''BREW'' ''https://h/other'' [(''Authorization'', ''Basic dXNlcjpwYXNz'')])
       (example_env [stored ''a'' ''hi'']) =
     (Returns \<lparr>status = 404, headers = [], resp_body = Some ''Not Found''\<rparr>,
      BUCKET (example_env [stored ''a'' ''hi'']))"
    using credentials_checked_first [of "example_request ''BREW'' ''https://h/other''
        [(''Authorization'', ''Basic dXNlcjpwYXNz'')]" "example_env [stored ''a'' ''hi'']"
        example_platform _ _ "''Basic dXNlcjpwYXNz''" "''/other''"] good other
    by (simp add: hdr)
  have w3: "fetch example_platform
       (example_request ''BREW'' ''https://h/zotero/a'' [(''Authorization'', ''Basic dXNlcjpwYXNz'')])
       (example_env [stored ''a'' ''hi'']) =
     (Returns \<lparr>status = 405, headers = [], resp_body = Some ''Method Not Allowed''\<rparr>,
      BUCKET (example_env [stored ''a'' ''hi'']))"
    using credentials_checked_first [of "example_request ''BREW'' ''https://h/zotero/a''
        [(''Authorization'', ''Basic dXNlcjpwYXNz'')]" "example_env [stored ''a'' ''hi'']"
        example_platform _ _ "''Basic dXNlcjpwYXNz''" "''/zotero/a''" "''a''"] good inside
      resolve_key_plain(1)
    by (simp add: hdr)
  show ?thesis
    using w1 w2 w3 by (simp add: example_bucket)
qed


section \<open>PROPFIND\<close>



















end
